theory Spec2Isabelle
  imports Main
begin

section \<open>Exceptions, handles and the process state\<close>

text \<open>
  A Python exception is its class name and message; \<open>MyException\<close> is the domain error of
  \<^verbatim>\<open>src.exception\<close>, built as \<^verbatim>\<open>MyException(e, sys)\<close> around the exception it wraps.
  Every exception of the model is a subclass of \<^verbatim>\<open>Exception\<close>, so \<^verbatim>\<open>except Exception\<close>
  catches all of them and \<^verbatim>\<open>except MyException\<close> only the second constructor.
\<close>

datatype exn = PyErr string string | MyException exn

type_synonym bytes = string

text \<open>A \<^verbatim>\<open>BlobServiceClient\<close> object: its identity and the connection string it was built from.\<close>

datatype handle = Handle nat string

datatype container_client = ContainerClient handle string

datatype blob_client = BlobClient handle string string

text \<open>What the process does to the outside, in the order it does it.\<close>

datatype event =
    Getenv string
  | FromConnectionString string
  | ContainerExists string
  | BlobExists string string
  | UploadBlob string string
  | DownloadBlob string string
  | ReadAll
  | CreateContainer string
  | OpenRead string
  | OpenWrite string
  | Remove string
  | Unpickle

text \<open>
  The state the three modules act on: the environment variables, the local files (a flat
  name space of regular files), the remote store (its containers and blobs), the class
  attribute \<^verbatim>\<open>AzureBlobClient.blob_service_client\<close>, and the counter that gives every new
  SDK handle its identity. \<open>faults\<close> is the behaviour of the SDK that the code does not
  decide: the next SDK call raises the head of the list when that is \<open>Some e\<close> (a transport
  or authentication error, a rejected connection string) and goes through otherwise.
  \<open>trace\<close> records the calls made.
\<close>

record world =
  environ :: "string \<rightharpoonup> string"
  files :: "string \<rightharpoonup> bytes"
  containers :: "string set"
  blobs :: "(string \<times> string) \<rightharpoonup> bytes"
  faults :: "exn option list"
  trace :: "event list"
  next_handle :: nat
  cached_client :: "handle option"

type_synonym 'a result = "(exn + 'a) \<times> world"

definition log :: "event \<Rightarrow> world \<Rightarrow> world" where
  "log ev w = w\<lparr>trace := trace w @ [ev]\<rparr>"

definition next_fault :: "world \<Rightarrow> exn option" where
  "next_fault w = (case faults w of [] \<Rightarrow> None | f # fs \<Rightarrow> f)"

definition sdk_call :: "event \<Rightarrow> world \<Rightarrow> exn option \<times> world" where
  "sdk_call ev w = (next_fault w, log ev (w\<lparr>faults := tl (faults w)\<rparr>))"

subsection \<open>The operating system: environment and files\<close>

text \<open>
  Reading or removing a file that is not there raises \<^verbatim>\<open>FileNotFoundError\<close>. Opening a
  file for writing creates it or empties it and always succeeds: directories and
  permissions are not part of the state.
\<close>

definition os_getenv :: "string \<Rightarrow> world \<Rightarrow> string option \<times> world" where
  "os_getenv key w = (environ w key, log (Getenv key) w)"

definition open_rb :: "string \<Rightarrow> world \<Rightarrow> bytes result" where
  "open_rb path w =
     (case files w path of
        None \<Rightarrow> (Inl (PyErr ''FileNotFoundError'' path), log (OpenRead path) w)
      | Some content \<Rightarrow> (Inr content, log (OpenRead path) w))"

definition open_wb :: "string \<Rightarrow> world \<Rightarrow> world" where
  "open_wb path w = log (OpenWrite path) (w\<lparr>files := (files w)(path \<mapsto> [])\<rparr>)"

definition file_write :: "string \<Rightarrow> bytes \<Rightarrow> world \<Rightarrow> world" where
  "file_write path content w =
     w\<lparr>files := (files w)(path \<mapsto>
         (case files w path of None \<Rightarrow> content | Some old \<Rightarrow> old @ content))\<rparr>"

definition os_remove :: "string \<Rightarrow> world \<Rightarrow> unit result" where
  "os_remove path w =
     (case files w path of
        None \<Rightarrow> (Inl (PyErr ''FileNotFoundError'' path), log (Remove path) w)
      | Some content \<Rightarrow> (Inr (), log (Remove path) (w\<lparr>files := (files w)(path := None)\<rparr>)))"

subsection \<open>The SDK calls the code makes\<close>

text \<open>
  \<^verbatim>\<open>azure.storage.blob\<close> is not part of the repository. Each call is the store operation
  of its name (an upload overwrites, a download of an absent blob and the creation of an
  existing container raise), preceded by the fault the schedule holds for it.
\<close>

definition from_connection_string :: "string \<Rightarrow> world \<Rightarrow> handle result" where
  "from_connection_string conn_str w =
     (case sdk_call (FromConnectionString conn_str) w of
        (Some e, w1) \<Rightarrow> (Inl e, w1)
      | (None, w1) \<Rightarrow>
          (Inr (Handle (next_handle w1) conn_str), w1\<lparr>next_handle := Suc (next_handle w1)\<rparr>))"

definition get_container_client :: "handle \<Rightarrow> string \<Rightarrow> container_client" where
  "get_container_client h container_name = ContainerClient h container_name"

definition get_blob_client :: "handle \<Rightarrow> string \<Rightarrow> string \<Rightarrow> blob_client" where
  "get_blob_client h container_name blob_name = BlobClient h container_name blob_name"

fun ContainerClient_exists :: "container_client \<Rightarrow> world \<Rightarrow> bool result" where
  "ContainerClient_exists (ContainerClient h c) w =
     (case sdk_call (ContainerExists c) w of
        (Some e, w1) \<Rightarrow> (Inl e, w1)
      | (None, w1) \<Rightarrow> (Inr (c \<in> containers w1), w1))"

fun ContainerClient_create_container :: "container_client \<Rightarrow> world \<Rightarrow> unit result" where
  "ContainerClient_create_container (ContainerClient h c) w =
     (case sdk_call (CreateContainer c) w of
        (Some e, w1) \<Rightarrow> (Inl e, w1)
      | (None, w1) \<Rightarrow>
          if c \<in> containers w1 then (Inl (PyErr ''ResourceExistsError'' c), w1)
          else (Inr (), w1\<lparr>containers := insert c (containers w1)\<rparr>))"

fun BlobClient_exists :: "blob_client \<Rightarrow> world \<Rightarrow> bool result" where
  "BlobClient_exists (BlobClient h c b) w =
     (case sdk_call (BlobExists c b) w of
        (Some e, w1) \<Rightarrow> (Inl e, w1)
      | (None, w1) \<Rightarrow> (Inr (c \<in> containers w1 \<and> blobs w1 (c, b) \<noteq> None), w1))"


fun BlobClient_download_blob :: "blob_client \<Rightarrow> world \<Rightarrow> bytes result" where
  "BlobClient_download_blob (BlobClient h c b) w =
     (case sdk_call (DownloadBlob c b) w of
        (Some e, w1) \<Rightarrow> (Inl e, w1)
      | (None, w1) \<Rightarrow>
          if c \<notin> containers w1 then (Inl (PyErr ''ResourceNotFoundError'' c), w1)
          else (case blobs w1 (c, b) of
                  None \<Rightarrow> (Inl (PyErr ''ResourceNotFoundError'' b), w1)
                | Some content \<Rightarrow> (Inr content, w1)))"

definition readall :: "bytes \<Rightarrow> world \<Rightarrow> bytes result" where
  "readall stream w =
     (case sdk_call ReadAll w of
        (Some e, w1) \<Rightarrow> (Inl e, w1)
      | (None, w1) \<Rightarrow> (Inr stream, w1))"

section \<open>configuration/azure\_connection.py\<close>

record provider =
  provider_client :: handle

text \<open>
  \<^verbatim>\<open>AzureBlobClient.__init__\<close>. The name of the environment variable is the constant
  \<^verbatim>\<open>credentials.AZURE_STORAGE_CONNECTION_STRING\<close> of a module outside the repository:
  the parameter \<open>env_key\<close>.
\<close>

definition AzureBlobClient_init :: "string \<Rightarrow> world \<Rightarrow> provider result" where
  "AzureBlobClient_init env_key w =
     (case cached_client w of
        None \<Rightarrow>
          (case os_getenv env_key w of
             (None, w1) \<Rightarrow>
               (Inl (PyErr ''Exception''
                       (''Environment variable: '' @ env_key @ '' is not set.'')), w1)
           | (Some connection_string, w1) \<Rightarrow>
               (case from_connection_string connection_string w1 of
                  (Inl e, w2) \<Rightarrow> (Inl e, w2)
                | (Inr h, w2) \<Rightarrow>
                    (Inr \<lparr>provider_client = h\<rparr>, w2\<lparr>cached_client := Some h\<rparr>)))
      | Some h \<Rightarrow> (Inr \<lparr>provider_client = h\<rparr>, w))"

section \<open>cloud\_storage/azure\_storage.py\<close>

record service =
  blob_service_client :: handle

text \<open>Python's truth value of an optional string: \<^verbatim>\<open>None\<close> and \<^verbatim>\<open>""\<close> are false.\<close>

definition truthy :: "string option \<Rightarrow> bool" where
  "truthy s = (case s of None \<Rightarrow> False | Some v \<Rightarrow> v \<noteq> [])"

definition AzureBlobStorageService_init :: "string option \<Rightarrow> world \<Rightarrow> service result" where
  "AzureBlobStorageService_init connection_string w =
     (case (if \<not> truthy connection_string
            then os_getenv ''AZURE_STORAGE_CONNECTION_STRING'' w
            else (connection_string, w)) of
        (connection_string1, w1) \<Rightarrow>
          if \<not> truthy connection_string1
          then (Inl (PyErr ''ValueError'' ''Azure Storage connection string is required.''), w1)
          else (case from_connection_string (the connection_string1) w1 of
                  (Inl e, w2) \<Rightarrow> (Inl e, w2)
                | (Inr h, w2) \<Rightarrow> (Inr \<lparr>blob_service_client = h\<rparr>, w2)))"

text \<open>
  Every method below is \<^verbatim>\<open>try: ... except Exception as e: logging.error(...); raise\<close>: the
  exception leaves the method as it was raised. The log file is not part of the state.
\<close>

definition container_exists :: "service \<Rightarrow> string \<Rightarrow> world \<Rightarrow> bool result" where
  "container_exists self container_name w =
     ContainerClient_exists (get_container_client (blob_service_client self) container_name) w"

definition blob_exists :: "service \<Rightarrow> string \<Rightarrow> string \<Rightarrow> world \<Rightarrow> bool result" where
  "blob_exists self container_name blob_name w =
     BlobClient_exists (get_blob_client (blob_service_client self) container_name blob_name) w"


definition download_blob :: "service \<Rightarrow> string \<Rightarrow> string \<Rightarrow> string \<Rightarrow> world \<Rightarrow> unit result" where
  "download_blob self container_name blob_name file_path w =
     (let blob_client = get_blob_client (blob_service_client self) container_name blob_name;
          w1 = open_wb file_path w
      in case BlobClient_download_blob blob_client w1 of
           (Inl e, w2) \<Rightarrow> (Inl e, w2)
         | (Inr download_stream, w2) \<Rightarrow>
             (case readall download_stream w2 of
                (Inl e, w3) \<Rightarrow> (Inl e, w3)
              | (Inr content, w3) \<Rightarrow> (Inr (), file_write file_path content w3)))"

definition create_container :: "service \<Rightarrow> string \<Rightarrow> world \<Rightarrow> unit result" where
  "create_container self container_name w =
     (let container_client = get_container_client (blob_service_client self) container_name
      in case ContainerClient_exists container_client w of
           (Inl e, w1) \<Rightarrow> (Inl e, w1)
         | (Inr present, w1) \<Rightarrow>
             if \<not> present then ContainerClient_create_container container_client w1
             else (Inr (), w1))"

section \<open>entity/s3\_estimator.py\<close>

record 'm estimator =
  connection_string :: "string option"
  container_name :: string
  model_path :: string
  azure_storage :: service
  loaded_model :: "'m option"

definition Proj1EstimatorAzure_init ::
  "string option \<Rightarrow> string \<Rightarrow> string \<Rightarrow> world \<Rightarrow> ('m estimator) result" where
  "Proj1EstimatorAzure_init conn container path w =
     (case AzureBlobStorageService_init conn w of
        (Inl e, w1) \<Rightarrow> (Inl e, w1)
      | (Inr s, w1) \<Rightarrow>
          (Inr \<lparr>connection_string = conn, container_name = container, model_path = path,
                azure_storage = s, loaded_model = None\<rparr>, w1))"

definition is_model_present :: "'m estimator \<Rightarrow> world \<Rightarrow> bool result" where
  "is_model_present self w =
     (case blob_exists (azure_storage self) (container_name self) (model_path self) w of
        (Inl (MyException e), w1) \<Rightarrow> (Inr False, w1)
      | (Inl (PyErr cls msg), w1) \<Rightarrow> (Inl (PyErr cls msg), w1)
      | (Inr present, w1) \<Rightarrow> (Inr present, w1))"

text \<open>
  \<^verbatim>\<open>load_model\<close>. \<open>pickle_load\<close> is what evaluating \<^verbatim>\<open>pickle.load(model_file)\<close> on the
  content of the file does: it raises, or it returns the object stored there, which is
  \<^verbatim>\<open>None\<close> or an object \<open>m\<close>. It is a parameter of \<open>load_model\<close> and \<open>predict\<close>.

  The module itself imports \<^verbatim>\<open>AzureBlobStorageService\<close>, \<^verbatim>\<open>MyException\<close>, \<^verbatim>\<open>MyModel\<close>, \<^verbatim>\<open>sys\<close>,
  \<^verbatim>\<open>DataFrame\<close> and \<^verbatim>\<open>os\<close>, and nothing else: the name \<^verbatim>\<open>pickle\<close> is not bound in it. So in
  the module as it stands, evaluating \<^verbatim>\<open>pickle.load(model_file)\<close> raises \<^verbatim>\<open>NameError\<close> at the
  name, whatever the file holds: \<open>pickle_load_unbound\<close>.
\<close>

definition pickle_load_unbound :: "bytes \<Rightarrow> exn + 'm option" where
  "pickle_load_unbound content = Inl (PyErr ''NameError'' ''name pickle is not defined'')"

definition temp_file_path :: string where
  "temp_file_path = ''temp_model.pkl''"

definition load_model ::
  "(bytes \<Rightarrow> exn + 'm option) \<Rightarrow> 'm estimator \<Rightarrow> world \<Rightarrow> ('m option) result" where
  "load_model pickle_load self w =
     (case download_blob (azure_storage self) (container_name self) (model_path self)
             temp_file_path w of
        (Inl e, w1) \<Rightarrow> (Inl (MyException e), w1)
      | (Inr u, w1) \<Rightarrow>
          (case open_rb temp_file_path w1 of
             (Inl e, w2) \<Rightarrow> (Inl (MyException e), w2)
           | (Inr content, w2) \<Rightarrow>
               (case pickle_load content of
                  Inl e \<Rightarrow> (Inl (MyException e), log Unpickle w2)
                | Inr model \<Rightarrow>
                    (case os_remove temp_file_path (log Unpickle w2) of
                       (Inl e, w3) \<Rightarrow> (Inl (MyException e), w3)
                     | (Inr u', w3) \<Rightarrow> (Inr model, w3)))))"


text \<open>
  \<^verbatim>\<open>predict\<close> assigns to \<^verbatim>\<open>self.loaded_model\<close>, so it returns the instance as well.
  \<open>model_predict m df\<close> is the call \<^verbatim>\<open>m.predict(dataframe=df)\<close> on the unpickled object
  (an \<^verbatim>\<open>AttributeError\<close> when the object has no such method); calling it on \<^verbatim>\<open>None\<close>
  raises \<^verbatim>\<open>AttributeError\<close>.
\<close>

definition call_predict :: "('m \<Rightarrow> 'd \<Rightarrow> exn + 'p) \<Rightarrow> 'm option \<Rightarrow> 'd \<Rightarrow> exn + 'p" where
  "call_predict model_predict obj dataframe =
     (case obj of
        None \<Rightarrow> Inl (PyErr ''AttributeError'' ''NoneType object has no attribute predict'')
      | Some m \<Rightarrow> model_predict m dataframe)"

definition wrap :: "exn + 'a \<Rightarrow> exn + 'a" where
  "wrap r = (case r of Inl e \<Rightarrow> Inl (MyException e) | Inr v \<Rightarrow> Inr v)"

definition predict ::
  "(bytes \<Rightarrow> exn + 'm option) \<Rightarrow> ('m \<Rightarrow> 'd \<Rightarrow> exn + 'p) \<Rightarrow> 'm estimator \<Rightarrow> 'd \<Rightarrow> world
     \<Rightarrow> (exn + 'p) \<times> 'm estimator \<times> world" where
  "predict pickle_load model_predict self dataframe w =
     (case (if loaded_model self = None
            then (case load_model pickle_load self w of
                    (Inl e, w1) \<Rightarrow> (Inl e, self, w1)
                  | (Inr model, w1) \<Rightarrow> (Inr (), self\<lparr>loaded_model := model\<rparr>, w1))
            else (Inr (), self, w)) of
        (Inl e, self1, w1) \<Rightarrow> (Inl (MyException e), self1, w1)
      | (Inr u, self1, w1) \<Rightarrow>
          (wrap (call_predict model_predict (loaded_model self1) dataframe), self1, w1))"

section \<open>Observations and processes\<close>

text \<open>How many downloads a state has seen.\<close>

fun is_download :: "event \<Rightarrow> bool" where
  "is_download (DownloadBlob c b) = True"
| "is_download ev = False"

definition downloads :: "world \<Rightarrow> nat" where
  "downloads w = length (filter is_download (trace w))"

text \<open>
  A process that constructs providers and changes its environment in any order; \<open>run\<close>
  returns the instances whose construction did not raise.
\<close>

datatype proc_step = Construct | Setenv string string | Unsetenv string

fun run :: "string \<Rightarrow> proc_step list \<Rightarrow> world \<Rightarrow> provider list \<times> world" where
  "run env_key [] w = ([], w)"
| "run env_key (Construct # steps) w =
     (case AzureBlobClient_init env_key w of
        (Inl e, w1) \<Rightarrow> run env_key steps w1
      | (Inr p, w1) \<Rightarrow> (case run env_key steps w1 of (ps, w2) \<Rightarrow> (p # ps, w2)))"
| "run env_key (Setenv k v # steps) w =
     run env_key steps (w\<lparr>environ := (environ w)(k \<mapsto> v)\<rparr>)"
| "run env_key (Unsetenv k # steps) w =
     run env_key steps (w\<lparr>environ := (environ w)(k := None)\<rparr>)"

section \<open>Concrete states\<close>

definition svc0 :: service where
  "svc0 = \<lparr>blob_service_client = Handle 0 ''UseDevelopmentStorage=true''\<rparr>"

definition est0 :: "nat estimator" where
  "est0 = \<lparr>connection_string = Some ''UseDevelopmentStorage=true'', container_name = ''models'',
     model_path = ''model.pkl'', azure_storage = svc0, loaded_model = None\<rparr>"

text \<open>Nothing anywhere: no variable, no file, no container.\<close>

definition w_empty :: world where
  "w_empty = \<lparr>environ = Map.empty, files = Map.empty, containers = {}, blobs = Map.empty,
     faults = [], trace = [], next_handle = 0, cached_client = None\<rparr>"

text \<open>A store with one container and no blob; a local file that holds something.\<close>

definition w_absent :: world where
  "w_absent = w_empty\<lparr>files := [''model.bin'' \<mapsto> ''old content''], containers := {''models''}\<rparr>"

text \<open>The SDK rejects the next connection string it is given.\<close>

definition w_rejecting :: world where
  "w_rejecting = w_empty\<lparr>faults :=
     [Some (PyErr ''ValueError'' ''Connection string is either blank or malformed.'')]\<rparr>"

text \<open>The connection string is in the environment.\<close>

definition w_env :: world where
  "w_env = w_empty\<lparr>environ := [''AZURE_STORAGE_CONNECTION_STRING'' \<mapsto> ''AccountName=env'']\<rparr>"

text \<open>A trained model is on disk, ready to be saved.\<close>

definition w_saved :: world where
  "w_saved = w_empty\<lparr>files := [''out/model.pkl'' \<mapsto> ''pickled''], containers := {''models''}\<rparr>"

text \<open>
  A deserializer that knows two pickles, of the object \<open>7\<close> and of \<^verbatim>\<open>None\<close>, and raises on
  anything else; a model that adds itself to every entry of its input.
\<close>

definition pickle_strict :: "bytes \<Rightarrow> exn + nat option" where
  "pickle_strict content =
     (if content = ''MODEL7'' then Inr (Some 7)
      else if content = ''NONE'' then Inr None
      else Inl (PyErr ''UnpicklingError'' ''invalid load key''))"

definition predict_add :: "nat \<Rightarrow> nat list \<Rightarrow> exn + nat list" where
  "predict_add m dataframe = Inr (map (\<lambda>x. x + m) dataframe)"

text \<open>The artifact blob holds a model; holds bytes that are no pickle; cannot be reached.\<close>

definition w_model :: world where
  "w_model = w_empty\<lparr>containers := {''models''},
                     blobs := [(''models'', ''model.pkl'') \<mapsto> ''MODEL7'']\<rparr>"

definition w_garbage :: world where
  "w_garbage = w_empty\<lparr>containers := {''models''},
                       blobs := [(''models'', ''model.pkl'') \<mapsto> ''garbage'']\<rparr>"

definition w_unreachable :: world where
  "w_unreachable = w_model\<lparr>faults := [Some (PyErr ''ServiceRequestError'' ''connection refused'')]\<rparr>"

section \<open>Properties\<close>

lemmas prim_defs = log_def next_fault_def sdk_call_def os_getenv_def open_rb_def open_wb_def
  file_write_def os_remove_def from_connection_string_def get_container_client_def
  get_blob_client_def readall_def

lemmas state_defs = w_empty_def w_absent_def w_env_def w_saved_def w_model_def w_garbage_def
  w_unreachable_def w_rejecting_def svc0_def est0_def

subsection \<open>The storage service\<close>

text \<open>
  C4, as stated, fails: a non-empty argument that the SDK factory rejects. The constructor
  passes the string to \<^verbatim>\<open>BlobServiceClient.from_connection_string\<close>, which raises its own
  \<^verbatim>\<open>ValueError\<close>, and nothing in the constructor catches it: construction raises although a
  source yields a non-empty value.
\<close>

theorem storage_service_init_counterexample:
  "truthy (Some ''garbage'') \<and>
   fst (AzureBlobStorageService_init (Some ''garbage'') w_rejecting) =
     Inl (PyErr ''ValueError'' ''Connection string is either blank or malformed.'')"
  by (simp add: AzureBlobStorageService_init_def prim_defs truthy_def state_defs)

text \<open>
  C4, amended. The constructor takes the explicit argument when it is non-empty, without
  reading the environment, and the variable \<^verbatim>\<open>AZURE_STORAGE_CONNECTION_STRING\<close> otherwise.
  When neither is a non-empty string it raises its own \<^verbatim>\<open>ValueError\<close>, whatever the SDK
  would do. Otherwise it hands the resolved string to the SDK factory and does what the
  factory does: it raises the factory's error when the factory raises, and returns the
  service built on the new handle when the factory accepts the string. So construction
  raises if and only if neither source is non-empty or the factory rejects the string.
\<close>

theorem storage_service_init_credential:
  "(\<not> truthy arg \<and> \<not> truthy (environ w ''AZURE_STORAGE_CONNECTION_STRING'') \<longrightarrow>
      fst (AzureBlobStorageService_init arg w) =
        Inl (PyErr ''ValueError'' ''Azure Storage connection string is required.'')) \<and>
   (truthy arg \<longrightarrow>
      AzureBlobStorageService_init arg w =
        (case next_fault w of
           None \<Rightarrow> Inr \<lparr>blob_service_client = Handle (next_handle w) (the arg)\<rparr>
         | Some e \<Rightarrow> Inl e,
         snd (from_connection_string (the arg) w))) \<and>
   (\<not> truthy arg \<and> truthy (environ w ''AZURE_STORAGE_CONNECTION_STRING'') \<longrightarrow>
      fst (AzureBlobStorageService_init arg w) =
        (case next_fault w of
           None \<Rightarrow> Inr \<lparr>blob_service_client =
                          Handle (next_handle w)
                            (the (environ w ''AZURE_STORAGE_CONNECTION_STRING''))\<rparr>
         | Some e \<Rightarrow> Inl e)) \<and>
   ((\<exists>e. fst (AzureBlobStorageService_init arg w) = Inl e) \<longleftrightarrow>
      (\<not> truthy arg \<and> \<not> truthy (environ w ''AZURE_STORAGE_CONNECTION_STRING'')) \<or>
      next_fault w \<noteq> None)"
  by (auto simp add: AzureBlobStorageService_init_def prim_defs truthy_def split: option.splits)

theorem storage_service_init_credential_witness:
  "fst (AzureBlobStorageService_init (Some ''AccountName=arg'') w_env) =
      Inr \<lparr>blob_service_client = Handle 0 ''AccountName=arg''\<rparr> \<and>
   fst (AzureBlobStorageService_init (Some []) w_env) =
      Inr \<lparr>blob_service_client = Handle 0 ''AccountName=env''\<rparr> \<and>
   fst (AzureBlobStorageService_init None w_env) =
      Inr \<lparr>blob_service_client = Handle 0 ''AccountName=env''\<rparr> \<and>
   fst (AzureBlobStorageService_init None w_empty) =
      Inl (PyErr ''ValueError'' ''Azure Storage connection string is required.'') \<and>
   fst (AzureBlobStorageService_init (Some [])
          (w_empty\<lparr>environ := [''AZURE_STORAGE_CONNECTION_STRING'' \<mapsto> []]\<rparr>)) =
      Inl (PyErr ''ValueError'' ''Azure Storage connection string is required.'') \<and>
   fst (AzureBlobStorageService_init None w_rejecting) =
      Inl (PyErr ''ValueError'' ''Azure Storage connection string is required.'') \<and>
   fst (AzureBlobStorageService_init (Some ''AccountName=arg'') w_rejecting) =
      Inl (PyErr ''ValueError'' ''Connection string is either blank or malformed.'')"
proof -
  have ok: "next_fault w_env = None" "next_fault w_empty = None"
    "next_fault w_rejecting =
       Some (PyErr ''ValueError'' ''Connection string is either blank or malformed.'')"
    by (simp_all add: next_fault_def state_defs)
  from storage_service_init_credential [of "Some ''AccountName=arg''" w_env]
       storage_service_init_credential [of "Some []" w_env]
       storage_service_init_credential [of None w_env]
       storage_service_init_credential [of None w_empty]
       storage_service_init_credential
         [of "Some []" "w_empty\<lparr>environ := [''AZURE_STORAGE_CONNECTION_STRING'' \<mapsto> []]\<rparr>"]
       storage_service_init_credential [of None w_rejecting]
       storage_service_init_credential [of "Some ''AccountName=arg''" w_rejecting]
       ok
  show ?thesis by (simp add: truthy_def state_defs)
qed

text \<open>
  C5. Where the container does not exist, \<^verbatim>\<open>container_exists\<close> answers \<^verbatim>\<open>False\<close>. Once
  \<^verbatim>\<open>create_container\<close> has returned, \<^verbatim>\<open>container_exists\<close> answers \<^verbatim>\<open>True\<close>, and a second
  \<^verbatim>\<open>create_container\<close> returns without raising after its existence check alone: the trace
  gains no creation, and containers and blobs are as they were. Each answer is that of a
  call the store serves (\<open>next_fault\<close> is \<open>None\<close>); a call it does not serve raises.
\<close>

theorem create_container_idempotent:
  "c \<notin> containers w \<Longrightarrow>
     (next_fault w = None \<longrightarrow> fst (container_exists self c w) = Inr False) \<and>
     (create_container self c w = (Inr (), w1) \<and> next_fault w1 = None \<longrightarrow>
        fst (container_exists self c w1) = Inr True \<and>
        fst (create_container self c w1) = Inr () \<and>
        containers (snd (create_container self c w1)) = containers w1 \<and>
        blobs (snd (create_container self c w1)) = blobs w1 \<and>
        trace (snd (create_container self c w1)) = trace w1 @ [ContainerExists c])"
  by (auto simp add: container_exists_def create_container_def prim_defs Let_def
      split: option.splits if_splits)

theorem create_container_idempotent_witness:
  "fst (container_exists svc0 ''models'' w_empty) = Inr False \<and>
   fst (create_container svc0 ''models'' w_empty) = Inr () \<and>
   fst (container_exists svc0 ''models'' (snd (create_container svc0 ''models'' w_empty)))
     = Inr True \<and>
   fst (create_container svc0 ''models'' (snd (create_container svc0 ''models'' w_empty)))
     = Inr () \<and>
   trace (snd (create_container svc0 ''models''
                 (snd (create_container svc0 ''models'' w_empty)))) =
     [ContainerExists ''models'', CreateContainer ''models'', ContainerExists ''models'']"
proof -
  let ?w1 = "snd (create_container svc0 ''models'' w_empty)"
  have a: "''models'' \<notin> containers w_empty" "next_fault w_empty = None"
    by (simp_all add: state_defs next_fault_def)
  have b1: "fst (create_container svc0 ''models'' w_empty) = Inr ()"
    by (simp add: create_container_def prim_defs state_defs)
  then have b: "create_container svc0 ''models'' w_empty = (Inr (), ?w1)"
    by (metis prod.collapse)
  have c: "next_fault ?w1 = None"
    "trace ?w1 = [ContainerExists ''models'', CreateContainer ''models'']"
    by (simp_all add: create_container_def prim_defs state_defs)
  note T = create_container_idempotent [OF a(1), of svc0 ?w1]
  from T a(2) have p1: "fst (container_exists svc0 ''models'' w_empty) = Inr False"
    by blast
  from T b c(1) have p2:
    "fst (container_exists svc0 ''models'' ?w1) = Inr True \<and>
     fst (create_container svc0 ''models'' ?w1) = Inr () \<and>
     trace (snd (create_container svc0 ''models'' ?w1)) = trace ?w1 @ [ContainerExists ''models'']"
    by blast
  from p1 p2 b1 show ?thesis by (simp add: c(2))
qed

text \<open>
  C9. \<^verbatim>\<open>download_blob\<close> opens the destination for writing, which creates it or empties
  it, before it asks the store for the blob: the trace of every call continues with the
  open and then the fetch. So whenever the fetch raises (\<^verbatim>\<open>download_blob()\<close> or
  \<^verbatim>\<open>readall()\<close>), the destination is left as an empty file, whatever it held before, and
  no other file is touched.
\<close>

theorem download_blob_truncates_first:
  "(\<exists>rest. trace (snd (download_blob self c b fp w)) =
        trace w @ OpenWrite fp # DownloadBlob c b # rest) \<and>
   (\<forall>e. fst (download_blob self c b fp w) = Inl e \<longrightarrow>
        files (snd (download_blob self c b fp w)) = (files w)(fp \<mapsto> []))"
  by (simp add: download_blob_def prim_defs Let_def split: option.split)

theorem download_blob_truncates_first_witness:
  "fst (download_blob svc0 ''models'' ''model.pkl'' ''model.bin'' w_absent) =
     Inl (PyErr ''ResourceNotFoundError'' ''model.pkl'') \<and>
   files w_absent ''model.bin'' = Some ''old content'' \<and>
   files (snd (download_blob svc0 ''models'' ''model.pkl'' ''model.bin'' w_absent)) ''model.bin''
     = Some []"
proof -
  have h: "fst (download_blob svc0 ''models'' ''model.pkl'' ''model.bin'' w_absent) =
     Inl (PyErr ''ResourceNotFoundError'' ''model.pkl'')"
    by (simp add: download_blob_def prim_defs state_defs)
  from download_blob_truncates_first
         [of svc0 "''models''" "''model.pkl''" "''model.bin''" w_absent] h
  show ?thesis by (simp add: state_defs)
qed

subsection \<open>The connection provider\<close>

lemma init_cached:
  "cached_client w = Some h \<Longrightarrow>
     AzureBlobClient_init env_key w = (Inr \<lparr>provider_client = h\<rparr>, w)"
  by (simp add: AzureBlobClient_init_def)

lemma init_fresh:
  "cached_client w = None \<Longrightarrow> AzureBlobClient_init env_key w = (r, w1) \<Longrightarrow>
     (case r of
        Inl e \<Rightarrow> cached_client w1 = None \<and> next_handle w1 = next_handle w
      | Inr p \<Rightarrow> cached_client w1 = Some (provider_client p) \<and>
                 next_handle w1 = Suc (next_handle w))"
  by (auto simp add: AzureBlobClient_init_def prim_defs split: option.splits sum.splits)

lemma run_cached:
  "cached_client w = Some h \<Longrightarrow>
     set (fst (run env_key steps w)) \<subseteq> {\<lparr>provider_client = h\<rparr>} \<and>
     next_handle (snd (run env_key steps w)) = next_handle w \<and>
     cached_client (snd (run env_key steps w)) = Some h"
proof (induction steps arbitrary: w)
  case Nil
  then show ?case by simp
next
  case (Cons s steps)
  show ?case
  proof (cases s)
    case Construct
    with Cons.prems Cons.IH [of w] show ?thesis
      by (auto simp add: init_cached split: prod.splits)
  next
    case (Setenv k v)
    with Cons.prems Cons.IH [of "w\<lparr>environ := (environ w)(k \<mapsto> v)\<rparr>"] show ?thesis by simp
  next
    case (Unsetenv k)
    with Cons.prems Cons.IH [of "w\<lparr>environ := (environ w)(k := None)\<rparr>"] show ?thesis by simp
  qed
qed

lemma run_fresh:
  "cached_client w = None \<Longrightarrow>
     (\<exists>h. set (fst (run env_key steps w)) \<subseteq> {\<lparr>provider_client = h\<rparr>}) \<and>
     next_handle (snd (run env_key steps w)) \<le> Suc (next_handle w)"
proof (induction steps arbitrary: w)
  case Nil
  then show ?case by simp
next
  case (Cons s steps)
  show ?case
  proof (cases s)
    case Construct
    obtain r w1 where i: "AzureBlobClient_init env_key w = (r, w1)"
      by (cases "AzureBlobClient_init env_key w")
    show ?thesis
    proof (cases r)
      case (Inl e)
      with init_fresh [OF Cons.prems i]
      have "cached_client w1 = None" "next_handle w1 = next_handle w"
        by simp_all
      with Cons.IH [of w1] Construct i Inl show ?thesis by simp
    next
      case (Inr p)
      with init_fresh [OF Cons.prems i]
      have c: "cached_client w1 = Some (provider_client p)"
        "next_handle w1 = Suc (next_handle w)"
        by simp_all
      have p: "p = \<lparr>provider_client = provider_client p\<rparr>" by (cases p) simp
      from run_cached [OF c(1), of env_key steps] c(2) Construct i Inr
      have "set (fst (run env_key (s # steps) w)) \<subseteq> {\<lparr>provider_client = provider_client p\<rparr>}"
        and "next_handle (snd (run env_key (s # steps) w)) \<le> Suc (next_handle w)"
        using p by (auto split: prod.splits)
      then show ?thesis by blast
    qed
  next
    case (Setenv k v)
    with Cons.prems Cons.IH [of "w\<lparr>environ := (environ w)(k \<mapsto> v)\<rparr>"] show ?thesis by simp
  next
    case (Unsetenv k)
    with Cons.prems Cons.IH [of "w\<lparr>environ := (environ w)(k := None)\<rparr>"] show ?thesis by simp
  qed
qed

text \<open>
  C8. The provider's handle is class-wide state. A construction that finds a handle
  cached returns it and changes nothing at all: it reads no variable and calls no SDK
  function, whatever the environment holds by then. A construction that finds none reads
  the variable, raises when it is unset (and caches nothing), and otherwise caches the
  handle the SDK builds from its value. So in a process that starts with no handle and
  constructs providers and sets or unsets variables in any order, every instance holds
  the same handle and at most one handle is ever built.
\<close>

theorem provider_single_handle:
  "(cached_client w = Some h \<longrightarrow>
      AzureBlobClient_init env_key w = (Inr \<lparr>provider_client = h\<rparr>, w)) \<and>
   (cached_client w = None \<and> environ w env_key = None \<longrightarrow>
      fst (AzureBlobClient_init env_key w) =
        Inl (PyErr ''Exception'' (''Environment variable: '' @ env_key @ '' is not set.'')) \<and>
      cached_client (snd (AzureBlobClient_init env_key w)) = None) \<and>
   (cached_client w = None \<and> environ w env_key = Some cs \<and> next_fault w = None \<longrightarrow>
      fst (AzureBlobClient_init env_key w) =
        Inr \<lparr>provider_client = Handle (next_handle w) cs\<rparr> \<and>
      cached_client (snd (AzureBlobClient_init env_key w)) = Some (Handle (next_handle w) cs)) \<and>
   (cached_client w = None \<longrightarrow>
      (\<forall>p \<in> set (fst (run env_key steps w)). \<forall>q \<in> set (fst (run env_key steps w)). p = q) \<and>
      next_handle (snd (run env_key steps w)) \<le> Suc (next_handle w))"
proof (intro conjI impI)
  assume "cached_client w = Some h"
  then show "AzureBlobClient_init env_key w = (Inr \<lparr>provider_client = h\<rparr>, w)"
    by (rule init_cached)
next
  assume a: "cached_client w = None \<and> environ w env_key = None"
  then show "fst (AzureBlobClient_init env_key w) =
        Inl (PyErr ''Exception'' (''Environment variable: '' @ env_key @ '' is not set.''))"
    by (simp add: AzureBlobClient_init_def prim_defs)
  from a show "cached_client (snd (AzureBlobClient_init env_key w)) = None"
    by (simp add: AzureBlobClient_init_def prim_defs)
next
  assume a: "cached_client w = None \<and> environ w env_key = Some cs \<and> next_fault w = None"
  then show "fst (AzureBlobClient_init env_key w) =
      Inr \<lparr>provider_client = Handle (next_handle w) cs\<rparr>"
    by (simp add: AzureBlobClient_init_def prim_defs)
  from a show "cached_client (snd (AzureBlobClient_init env_key w)) =
      Some (Handle (next_handle w) cs)"
    by (simp add: AzureBlobClient_init_def prim_defs)
next
  assume a: "cached_client w = None"
  from run_fresh [OF a, of env_key steps]
  show "\<forall>p \<in> set (fst (run env_key steps w)). \<forall>q \<in> set (fst (run env_key steps w)). p = q"
    by blast
  from run_fresh [OF a, of env_key steps]
  show "next_handle (snd (run env_key steps w)) \<le> Suc (next_handle w)" by simp
qed

theorem provider_single_handle_witness:
  "fst (run ''CONN'' [Construct, Setenv ''CONN'' ''first'', Construct,
                      Setenv ''CONN'' ''second'', Construct, Unsetenv ''CONN'', Construct]
          w_empty) =
     [\<lparr>provider_client = Handle 0 ''first''\<rparr>, \<lparr>provider_client = Handle 0 ''first''\<rparr>,
      \<lparr>provider_client = Handle 0 ''first''\<rparr>] \<and>
   fst (AzureBlobClient_init ''CONN'' w_empty) =
     Inl (PyErr ''Exception'' ''Environment variable: CONN is not set.'') \<and>
   fst (AzureBlobClient_init ''CONN'' (w_empty\<lparr>environ := [''CONN'' \<mapsto> ''first'']\<rparr>)) =
     Inr \<lparr>provider_client = Handle 0 ''first''\<rparr> \<and>
   AzureBlobClient_init ''CONN'' (w_empty\<lparr>cached_client := Some (Handle 0 ''first'')\<rparr>) =
     (Inr \<lparr>provider_client = Handle 0 ''first''\<rparr>,
      w_empty\<lparr>cached_client := Some (Handle 0 ''first'')\<rparr>)"
proof -
  let ?steps = "[Construct, Setenv ''CONN'' ''first'', Construct,
                 Setenv ''CONN'' ''second'', Construct, Unsetenv ''CONN'', Construct]"
  have r: "fst (run ''CONN'' ?steps w_empty) =
     [\<lparr>provider_client = Handle 0 ''first''\<rparr>, \<lparr>provider_client = Handle 0 ''first''\<rparr>,
      \<lparr>provider_client = Handle 0 ''first''\<rparr>]"
    by (simp add: AzureBlobClient_init_def prim_defs state_defs)
  have h: "cached_client w_empty = None" "environ w_empty ''CONN'' = None"
    "next_fault w_empty = None"
    by (simp_all add: state_defs next_fault_def)
  from provider_single_handle [of w_empty "Handle 0 ''first''" "''CONN''" "''first''" ?steps]
       provider_single_handle [of "w_empty\<lparr>environ := [''CONN'' \<mapsto> ''first'']\<rparr>"
                                  "Handle 0 ''first''" "''CONN''" "''first''" ?steps]
       provider_single_handle [of "w_empty\<lparr>cached_client := Some (Handle 0 ''first'')\<rparr>"
                                  "Handle 0 ''first''" "''CONN''" "''first''" ?steps]
       h r
  show ?thesis by (simp add: next_fault_def state_defs)
qed

subsection \<open>The model persistence adapter\<close>

lemma new_estimator_unloaded:
  "Proj1EstimatorAzure_init conn container path w = (Inr self, w1) \<Longrightarrow>
     loaded_model self = None"
  by (auto simp add: Proj1EstimatorAzure_init_def split: prod.splits sum.splits)

lemma load_model_downloads:
  "downloads (snd (load_model pickle_load self w)) = Suc (downloads w)"
  by (simp add: load_model_def download_blob_def downloads_def prim_defs Let_def
      split: option.split sum.split)

text \<open>
  The module as it stands: its \<^verbatim>\<open>load_model\<close> never returns. It raises the domain error
  around the download's error or, once the download is through, around the
  \<^verbatim>\<open>NameError\<close> of the deserialization line. So \<^verbatim>\<open>predict\<close> on an empty slot raises, leaves
  the slot empty and has made one more download.
\<close>

lemma load_model_unbound_raises:
  "\<exists>e. fst (load_model pickle_load_unbound self w) = Inl (MyException e)"
  by (simp add: load_model_def download_blob_def pickle_load_unbound_def prim_defs Let_def
      split: option.split sum.split prod.split)

lemma predict_unbound_raises:
  "loaded_model self = None \<Longrightarrow>
     (\<exists>e. fst (predict pickle_load_unbound model_predict self df w) =
            Inl (MyException (MyException e))) \<and>
     fst (snd (predict pickle_load_unbound model_predict self df w)) = self \<and>
     downloads (snd (snd (predict pickle_load_unbound model_predict self df w)))
       = Suc (downloads w)"
proof -
  assume n: "loaded_model self = None"
  obtain r w1 where l: "load_model pickle_load_unbound self w = (r, w1)"
    by (cases "load_model pickle_load_unbound self w")
  from load_model_unbound_raises [of self w] l obtain e where r: "r = Inl (MyException e)"
    by auto
  from load_model_downloads [of pickle_load_unbound self w] l
  have d: "downloads w1 = Suc (downloads w)" by simp
  from n l r d show ?thesis by (simp add: predict_def)
qed

text \<open>
  C3. What the code does where the claim fails: an instance with an empty slot, an
  artifact blob that holds a model, a store that serves every call. The first \<^verbatim>\<open>predict\<close>
  downloads the blob, raises at \<^verbatim>\<open>pickle.load\<close> and stores nothing: \<^verbatim>\<open>loaded_model\<close> is still
  \<^verbatim>\<open>None\<close>. The second \<^verbatim>\<open>predict\<close> on the same instance downloads again (two downloads in
  all) and raises again, where the claim has it reuse a cached model with no download.
\<close>

theorem predict_never_caches:
  "fst (predict pickle_load_unbound predict_add est0 [1, 2] w_model) =
     Inl (MyException (MyException (PyErr ''NameError'' ''name pickle is not defined''))) \<and>
   loaded_model (fst (snd (predict pickle_load_unbound predict_add est0 [1, 2] w_model)))
     = None \<and>
   downloads (snd (snd (predict pickle_load_unbound predict_add est0 [1, 2] w_model))) = 1 \<and>
   fst (predict pickle_load_unbound predict_add
          (fst (snd (predict pickle_load_unbound predict_add est0 [1, 2] w_model))) [3]
          (snd (snd (predict pickle_load_unbound predict_add est0 [1, 2] w_model)))) =
     Inl (MyException (MyException (PyErr ''NameError'' ''name pickle is not defined''))) \<and>
   downloads (snd (snd (predict pickle_load_unbound predict_add
          (fst (snd (predict pickle_load_unbound predict_add est0 [1, 2] w_model))) [3]
          (snd (snd (predict pickle_load_unbound predict_add est0 [1, 2] w_model)))))) = 2"
  by (simp add: predict_def load_model_def download_blob_def temp_file_path_def
      pickle_load_unbound_def downloads_def prim_defs state_defs)




text \<open>
  C1. What the code does where the claim fails: the artifact blob holds bytes that do
  not deserialize. The download writes them to \<^verbatim>\<open>temp_model.pkl\<close>, \<^verbatim>\<open>pickle.load\<close> raises,
  control leaves the \<^verbatim>\<open>try\<close> body before \<^verbatim>\<open>os.remove\<close>, and \<^verbatim>\<open>load_model\<close> raises the domain
  error with the temporary file still on disk. No file was there before the call.
\<close>

theorem load_model_leaves_temp_file:
  "files w_garbage ''temp_model.pkl'' = None \<and>
   fst (load_model pickle_strict est0 w_garbage) =
     Inl (MyException (PyErr ''UnpicklingError'' ''invalid load key'')) \<and>
   files (snd (load_model pickle_strict est0 w_garbage)) ''temp_model.pkl'' = Some ''garbage''"
  by (simp add: load_model_def download_blob_def temp_file_path_def pickle_strict_def
      prim_defs state_defs)

text \<open>
  C2. What the code does where the claim fails: the existence check raises an error of
  the transport. \<^verbatim>\<open>blob_exists\<close> re-raises it as it is, the handler of \<^verbatim>\<open>is_model_present\<close>
  names \<^verbatim>\<open>MyException\<close> only, and the error leaves \<^verbatim>\<open>is_model_present\<close> instead of the answer
  \<^verbatim>\<open>False\<close>.
\<close>

theorem is_model_present_propagates:
  "fst (blob_exists (azure_storage est0) (container_name est0) (model_path est0) w_unreachable)
     = Inl (PyErr ''ServiceRequestError'' ''connection refused'') \<and>
   fst (is_model_present est0 w_unreachable) =
     Inl (PyErr ''ServiceRequestError'' ''connection refused'')"
  by (simp add: is_model_present_def blob_exists_def prim_defs state_defs)

end
